theory Spec2Isabelle
  imports Complex_Main "HOL-Library.Word"
begin

section \<open>Hive coordination over the AtomSpace: a shallow embedding\<close>

text \<open>
  The development follows \<^verbatim>\<open>autognosis.c\<close> and \<^verbatim>\<open>hive_coordination.c\<close>.
  Conventions of the embedding:
  \<^item> \<^verbatim>\<open>uint32_t\<close> is \<open>32 word\<close> (\<open>+\<close> wraps); \<^verbatim>\<open>time_t\<close> is \<open>int\<close>;
  \<^item> \<^verbatim>\<open>float\<close> is idealised as \<open>real\<close>: rounding, infinities and NaN are not modelled,
    and a literal such as \<^verbatim>\<open>0.8f\<close> stands for the decimal it is written as;
  \<^item> a C string is the \<open>string\<close> of its characters before the terminating NUL, so
    \<^verbatim>\<open>strcmp(a, b) == 0\<close> is \<open>a = b\<close> and \<^verbatim>\<open>strncpy(dst, src, n - 1)\<close> into a
    zeroed buffer is \<open>take (n - 1) src\<close>;
  \<^item> a singly linked list is the \<open>list\<close> of its cells from the head; a pointer into
    it is the position of the cell;
  \<^item> \<^verbatim>\<open>time(NULL)\<close> is an argument \<open>now\<close> of every function that reads the clock
    (one reading per call of the outermost function);
  \<^item> pointer arguments are valid objects and \<^verbatim>\<open>calloc\<close> succeeds: the guards
    \<^verbatim>\<open>if (!p) return\<close> on arguments are not branches of the model. Fields the
    code tests against \<^verbatim>\<open>NULL\<close> before use (\<^verbatim>\<open>topology\<close>,
    \<^verbatim>\<open>global_knowledge\<close>) are \<open>option\<close>s.
\<close>

type_synonym u32 = "32 word"
type_synonym time_t = int

subsection \<open>AtomSpace (autognosis.h, autognosis.c)\<close>

datatype atom_type_t = ATOM_NODE | ATOM_LINK | ATOM_CONCEPT | ATOM_PREDICATE | ATOM_EVALUATION

text \<open>
  \<^verbatim>\<open>atom_t\<close>. The field \<^verbatim>\<open>type\<close> is \<open>atom_kind\<close> and \<^verbatim>\<open>id\<close> is \<open>atom_id\<close>;
  \<^verbatim>\<open>next\<close> is the list structure; \<^verbatim>\<open>outgoing\<close> is never assigned anything but
  \<^verbatim>\<open>NULL\<close> and is left out.
\<close>

record atom =
  atom_id :: u32
  atom_kind :: atom_type_t
  name :: string
  truth_value :: real
  confidence :: real
  importance :: real
  timestamp :: time_t

record atom_space =
  atoms :: "atom list"
  atom_count :: u32
  next_id :: u32

definition atomspace_create :: atom_space where
  "atomspace_create = \<lparr>atoms = [], atom_count = 0, next_id = 1\<rparr>"

text \<open>The search loop of \<^verbatim>\<open>atomspace_find_atom\<close>: the position of the first cell whose
  name compares equal.\<close>

fun find_atom_from :: "atom list \<Rightarrow> string \<Rightarrow> nat option" where
  "find_atom_from [] nm = None"
| "find_atom_from (a # rest) nm =
     (if name a = nm then Some 0 else map_option Suc (find_atom_from rest nm))"

definition atomspace_find_atom :: "atom_space \<Rightarrow> string \<Rightarrow> nat option" where
  "atomspace_find_atom space nm = find_atom_from (atoms space) nm"

text \<open>Assignment through an \<^verbatim>\<open>atom_t *\<close> that points at position \<open>i\<close>.\<close>

definition modify_atom :: "atom_space \<Rightarrow> nat \<Rightarrow> (atom \<Rightarrow> atom) \<Rightarrow> atom_space" where
  "modify_atom space i f =
     (if i < length (atoms space)
      then space\<lparr>atoms := (atoms space)[i := f (atoms space ! i)]\<rparr>
      else space)"

text \<open>\<^verbatim>\<open>atomspace_add_atom\<close> returns the store and the position of the atom it
  returns a pointer to.\<close>

definition atomspace_add_atom ::
  "atom_space \<Rightarrow> atom_type_t \<Rightarrow> string \<Rightarrow> time_t \<Rightarrow> atom_space \<times> nat" where
  "atomspace_add_atom space ty nm now =
     (case atomspace_find_atom space nm of
        Some i \<Rightarrow> (modify_atom space i (\<lambda>a. a\<lparr>importance := importance a + 1 / 10\<rparr>), i)
      | None \<Rightarrow>
          (space\<lparr>atoms :=
                   \<lparr>atom_id = next_id space, atom_kind = ty, name = take 255 nm,
                    truth_value = 1 / 2, confidence = 1 / 2, importance = 1,
                    timestamp = now\<rparr> # atoms space,
                 atom_count := atom_count space + 1,
                 next_id := next_id space + 1\<rparr>, 0))"

definition atomspace_update_truth_value :: "atom \<Rightarrow> real \<Rightarrow> real \<Rightarrow> time_t \<Rightarrow> atom" where
  "atomspace_update_truth_value a truth conf now =
     (let old_weight = confidence a;
          new_weight = conf;
          total_weight = old_weight + new_weight;
          a1 = (if total_weight > 0
                then (let a' = a\<lparr>truth_value :=
                                   (truth_value a * old_weight + truth * new_weight) / total_weight,
                                 confidence := total_weight / 2\<rparr>
                      in if confidence a' > 1 then a'\<lparr>confidence := 1\<rparr> else a')
                else a)
      in a1\<lparr>timestamp := now\<rparr>)"

subsection \<open>Network topology (autognosis.c)\<close>

text \<open>\<^verbatim>\<open>network_node_t\<close>; \<^verbatim>\<open>node_id\<close> and \<^verbatim>\<open>health_score\<close> carry the prefix
  \<open>nn_\<close> to keep them apart from the coordinator's and the self-image's fields.\<close>

record network_node =
  nn_node_id :: u32
  address :: string
  nn_health_score :: real
  trust_level :: real
  last_seen :: time_t
  capabilities :: u32

record network_topology =
  nodes :: "network_node list"
  node_count :: u32
  overall_health :: real
  last_update :: time_t

definition topology_create :: "time_t \<Rightarrow> network_topology" where
  "topology_create now = \<lparr>nodes = [], node_count = 0, overall_health = 1, last_update = now\<rparr>"

text \<open>First loop of \<^verbatim>\<open>topology_add_node\<close>: refresh the first node with this id, if any.\<close>

fun refresh_node :: "network_node list \<Rightarrow> u32 \<Rightarrow> string \<Rightarrow> time_t \<Rightarrow> network_node list option" where
  "refresh_node [] i addr now = None"
| "refresh_node (n # ns) i addr now =
     (if nn_node_id n = i then Some (n\<lparr>address := take 63 addr, last_seen := now\<rparr> # ns)
      else map_option ((#) n) (refresh_node ns i addr now))"

definition topology_add_node ::
  "network_topology \<Rightarrow> u32 \<Rightarrow> string \<Rightarrow> time_t \<Rightarrow> network_topology" where
  "topology_add_node t i addr now =
     (case refresh_node (nodes t) i addr now of
        Some ns \<Rightarrow> t\<lparr>nodes := ns\<rparr>
      | None \<Rightarrow>
          t\<lparr>nodes := \<lparr>nn_node_id = i, address = take 63 addr, nn_health_score = 1,
                       trust_level = 1 / 2, last_seen = now, capabilities = 0\<rparr> # nodes t,
            node_count := node_count t + 1,
            last_update := now\<rparr>)"

text \<open>First loop of \<^verbatim>\<open>topology_update_node_health\<close>, with its \<^verbatim>\<open>break\<close>.\<close>

fun set_node_health :: "network_node list \<Rightarrow> u32 \<Rightarrow> real \<Rightarrow> time_t \<Rightarrow> network_node list" where
  "set_node_health [] i health now = []"
| "set_node_health (n # ns) i health now =
     (if nn_node_id n = i then n\<lparr>nn_health_score := health, last_seen := now\<rparr> # ns
      else n # set_node_health ns i health now)"

text \<open>Second loop: \<^verbatim>\<open>total_health\<close> and \<^verbatim>\<open>healthy_nodes\<close> as accumulators.\<close>

fun sum_healthy :: "network_node list \<Rightarrow> real \<Rightarrow> int \<Rightarrow> real \<times> int" where
  "sum_healthy [] total_health healthy_nodes = (total_health, healthy_nodes)"
| "sum_healthy (n # ns) total_health healthy_nodes =
     (if nn_health_score n > 1 / 10
      then sum_healthy ns (total_health + nn_health_score n) (healthy_nodes + 1)
      else sum_healthy ns total_health healthy_nodes)"

definition topology_update_node_health ::
  "network_topology \<Rightarrow> u32 \<Rightarrow> real \<Rightarrow> time_t \<Rightarrow> network_topology" where
  "topology_update_node_health t i health now =
     (let ns = set_node_health (nodes t) i health now;
          (total_health, healthy_nodes) = sum_healthy ns 0 0
      in t\<lparr>nodes := ns,
           overall_health := (if healthy_nodes > 0 then total_health / real_of_int healthy_nodes else 0),
           last_update := now\<rparr>)"

subsection \<open>Healing rules (autognosis.c)\<close>

datatype healing_action_t =
  HEALING_NONE | HEALING_RETRY | HEALING_REROUTE | HEALING_RECONSTRUCT | HEALING_MIGRATE

record healing_rule =
  condition :: string
  action :: healing_action_t
  rule_confidence :: real
  success_count :: u32
  attempt_count :: u32

text \<open>\<^verbatim>\<open>strstr(haystack, needle) != NULL\<close>.\<close>

fun strstr :: "string \<Rightarrow> string \<Rightarrow> bool" where
  "strstr [] needle = (needle = [])"
| "strstr (h # hs) needle = (take (length needle) (h # hs) = needle \<or> strstr hs needle)"

text \<open>\<^verbatim>\<open>self_image_t\<close>, reduced to the two fields the coordinator reads or writes.\<close>

record self_image =
  health_score :: real
  autonomy_level :: real

text \<open>\<^verbatim>\<open>autognosis_engine_t\<close>, without the function pointers and the cognitive-cycle state,
  which the coordinator never touches.\<close>

record autognosis_engine =
  self_image :: self_image
  topology :: "network_topology option"
  healing_rules :: "healing_rule list"
  global_knowledge :: "atom_space option"

text \<open>The loop of \<^verbatim>\<open>healing_evaluate_problem\<close> with \<^verbatim>\<open>best_rule\<close> and
  \<^verbatim>\<open>best_score\<close> as accumulators.\<close>

fun best_rule_from ::
  "healing_rule list \<Rightarrow> string \<Rightarrow> healing_rule option \<Rightarrow> real \<Rightarrow> healing_rule option" where
  "best_rule_from [] problem_desc best_rule best_score = best_rule"
| "best_rule_from (r # rs) problem_desc best_rule best_score =
     (if strstr problem_desc (condition r)
      then (let success_rate =
                  (if attempt_count r > 0
                   then real (unat (success_count r)) / real (unat (attempt_count r))
                   else 1 / 2);
                score = rule_confidence r * success_rate
            in if score > best_score then best_rule_from rs problem_desc (Some r) score
               else best_rule_from rs problem_desc best_rule best_score)
      else best_rule_from rs problem_desc best_rule best_score)"

definition healing_evaluate_problem :: "autognosis_engine \<Rightarrow> string \<Rightarrow> healing_action_t" where
  "healing_evaluate_problem engine problem_desc =
     (case best_rule_from (healing_rules engine) problem_desc None 0 of
        Some r \<Rightarrow> action r
      | None \<Rightarrow> HEALING_RETRY)"

definition healing_create_rule :: "string \<Rightarrow> healing_action_t \<Rightarrow> real \<Rightarrow> healing_rule" where
  "healing_create_rule cond act conf =
     \<lparr>condition = take 255 cond, action = act, rule_confidence = conf,
      success_count = 0, attempt_count = 0\<rparr>"

definition healing_add_rule :: "autognosis_engine \<Rightarrow> healing_rule \<Rightarrow> autognosis_engine" where
  "healing_add_rule engine rule = engine\<lparr>healing_rules := rule # healing_rules engine\<rparr>"

text \<open>\<^verbatim>\<open>autognosis_create\<close>, for the fields kept: a fresh self-image (\<^verbatim>\<open>self_image_create\<close>
  sets health 1.0 and autonomy 0.5), an empty topology, an empty store and the three
  default rules, each added at the head of the rule list.\<close>

definition autognosis_create :: "time_t \<Rightarrow> autognosis_engine" where
  "autognosis_create now =
     (let engine = \<lparr>self_image = \<lparr>health_score = 1, autonomy_level = 1 / 2\<rparr>,
                    topology = Some (topology_create now),
                    healing_rules = [],
                    global_knowledge = Some atomspace_create\<rparr>;
          retry_rule = healing_create_rule ''timeout'' HEALING_RETRY (7 / 10);
          reroute_rule = healing_create_rule ''connection_failed'' HEALING_REROUTE (8 / 10);
          migrate_rule = healing_create_rule ''node_failure'' HEALING_MIGRATE (9 / 10)
      in healing_add_rule (healing_add_rule (healing_add_rule engine retry_rule) reroute_rule)
           migrate_rule)"

subsection \<open>Messages and payloads (hive_coordination.h, hive_coordination.c)\<close>

datatype hive_message_type_t =
  HIVE_MSG_HEARTBEAT | HIVE_MSG_KNOWLEDGE_SHARE | HIVE_MSG_HEALING_REQUEST
| HIVE_MSG_HEALING_RESPONSE | HIVE_MSG_TOPOLOGY_UPDATE | HIVE_MSG_EMERGENCY_SIGNAL

text \<open>\<^verbatim>\<open>knowledge_packet_t\<close>; the fields shared with \<^verbatim>\<open>atom_t\<close> carry the prefix \<open>pkt_\<close>.\<close>

record knowledge_packet =
  atom_name :: string
  atom_type :: atom_type_t
  pkt_truth_value :: real
  pkt_confidence :: real
  pkt_importance :: real
  pkt_timestamp :: time_t

record healing_request =
  problem_id :: u32
  problem_description :: string
  severity :: real
  requesting_node :: u32
  request_time :: time_t
  suggested_action :: healing_action_t

text \<open>\<^verbatim>\<open>healing_response_t\<close>; \<^verbatim>\<open>problem_id\<close> and \<^verbatim>\<open>confidence\<close> carry the prefix \<open>resp_\<close>.\<close>

record healing_response =
  resp_problem_id :: u32
  responding_node :: u32
  recommended_action :: healing_action_t
  resp_confidence :: real
  additional_info :: string

text \<open>
  The buffer \<^verbatim>\<open>char data[512]\<close> holds either plain bytes or the bytes of a structure
  that \<^verbatim>\<open>memcpy\<close> put there; the model keeps the structure itself. Every call of
  \<^verbatim>\<open>hive_message_set_data\<close> in the source passes an object together with its own size.
\<close>

datatype payload =
  RawBytes "8 word list"
| PacketObj knowledge_packet
| RequestObj healing_request
| ResponseObj healing_response

record hive_message =
  sender_id :: u32
  recipient_id :: u32
  msg_type :: hive_message_type_t
  sequence_number :: u32
  msg_timestamp :: time_t
  data_length :: u32
  data :: payload

text \<open>
  What the compiler and the C library decide: the three \<^verbatim>\<open>sizeof\<close> values (as
  \<^verbatim>\<open>uint32_t\<close>, the type of \<^verbatim>\<open>data_length\<close>), the text \<^verbatim>\<open>snprintf\<close> produces for
  \<^verbatim>\<open>%.2f\<close>, and what the casts in \<^verbatim>\<open>receive_message_impl\<close> read from a buffer that
  holds something other than the structure it is cast to.
\<close>

record platform =
  sizeof_knowledge_packet_t :: u32
  sizeof_healing_request_t :: u32
  sizeof_healing_response_t :: u32
  printf_2f :: "real \<Rightarrow> string"
  reinterpret_packet :: "payload \<Rightarrow> knowledge_packet"
  reinterpret_request :: "payload \<Rightarrow> healing_request"

definition hive_message_create :: "u32 \<Rightarrow> u32 \<Rightarrow> hive_message_type_t \<Rightarrow> time_t \<Rightarrow> hive_message" where
  "hive_message_create sender recipient ty now =
     \<lparr>sender_id = sender, recipient_id = recipient, msg_type = ty, sequence_number = 0,
      msg_timestamp = now, data_length = 0, data = RawBytes (replicate 512 0)\<rparr>"

definition hive_message_set_data :: "hive_message \<Rightarrow> payload \<Rightarrow> u32 \<Rightarrow> hive_message" where
  "hive_message_set_data message d len =
     (if len > 512 then message else message\<lparr>data := d, data_length := len\<rparr>)"

subsection \<open>Knowledge packets\<close>

definition knowledge_packet_from_atom :: "atom \<Rightarrow> knowledge_packet" where
  "knowledge_packet_from_atom a =
     \<lparr>atom_name = take 255 (name a), atom_type = atom_kind a,
      pkt_truth_value = truth_value a, pkt_confidence = confidence a,
      pkt_importance = importance a, pkt_timestamp = timestamp a\<rparr>"

definition knowledge_packet_to_atom ::
  "atom_space \<Rightarrow> knowledge_packet \<Rightarrow> time_t \<Rightarrow> atom_space \<times> nat" where
  "knowledge_packet_to_atom space packet now =
     (let (space1, i) = atomspace_add_atom space (atom_type packet) (atom_name packet) now;
          space2 = modify_atom space1 i
                     (\<lambda>a. atomspace_update_truth_value a (pkt_truth_value packet)
                             (pkt_confidence packet) now);
          space3 = modify_atom space2 i (\<lambda>a. a\<lparr>importance := pkt_importance packet\<rparr>);
          space4 = modify_atom space3 i (\<lambda>a. a\<lparr>timestamp := pkt_timestamp packet\<rparr>)
      in (space4, i))"

subsection \<open>The coordinator\<close>

text \<open>
  \<^verbatim>\<open>hive_coordinator_t\<close>. The function pointers are set once, in
  \<^verbatim>\<open>hive_coordinator_create\<close>, to the \<^verbatim>\<open>_impl\<close> functions, so a call through one is a
  call of that function. \<^verbatim>\<open>local_engine\<close> is never \<^verbatim>\<open>NULL\<close> (the constructor refuses
  a \<^verbatim>\<open>NULL\<close> engine) and is held by value. \<open>sent\<close> is the trace of the transport
  boundary: one entry, the message as handed over, for every run of
  \<^verbatim>\<open>send_message_impl\<close> (where the source prints the line that stands for the
  transmission).
\<close>

record hive_coordinator =
  local_engine :: autognosis_engine
  node_id :: u32
  sequence_counter :: u32
  last_heartbeat :: time_t
  last_knowledge_sync :: time_t
  collective_intelligence_score :: real
  sent :: "hive_message list"

definition hive_coordinator_create :: "autognosis_engine \<Rightarrow> u32 \<Rightarrow> time_t \<Rightarrow> hive_coordinator" where
  "hive_coordinator_create engine nid now =
     \<lparr>local_engine = engine, node_id = nid, sequence_counter = 0, last_heartbeat = now,
      last_knowledge_sync = now, collective_intelligence_score = 1 / 2, sent = []\<rparr>"

text \<open>\<^verbatim>\<open>send_message_impl\<close> returns the coordinator and the message, both as it leaves
  them.\<close>

definition send_message_impl ::
  "hive_coordinator \<Rightarrow> hive_message \<Rightarrow> hive_coordinator \<times> hive_message" where
  "send_message_impl coordinator message =
     (let counter = sequence_counter coordinator + 1;
          message' = message\<lparr>sequence_number := counter\<rparr>
      in (coordinator\<lparr>sequence_counter := counter, sent := sent coordinator @ [message']\<rparr>,
          message'))"

definition hive_broadcast_knowledge ::
  "platform \<Rightarrow> hive_coordinator \<Rightarrow> atom \<Rightarrow> time_t \<Rightarrow> hive_coordinator" where
  "hive_broadcast_knowledge P coordinator a now =
     (let packet = knowledge_packet_from_atom a;
          message = hive_message_create (node_id coordinator) 0 HIVE_MSG_KNOWLEDGE_SHARE now;
          message1 = hive_message_set_data message (PacketObj packet) (sizeof_knowledge_packet_t P)
      in fst (send_message_impl coordinator message1))"

definition share_knowledge_impl ::
  "platform \<Rightarrow> hive_coordinator \<Rightarrow> atom \<Rightarrow> time_t \<Rightarrow> hive_coordinator" where
  "share_knowledge_impl P coordinator a now =
     (if importance a > 7 / 10 then hive_broadcast_knowledge P coordinator a now
      else coordinator)"

definition process_shared_knowledge_impl ::
  "hive_coordinator \<Rightarrow> knowledge_packet \<Rightarrow> time_t \<Rightarrow> hive_coordinator" where
  "process_shared_knowledge_impl coordinator packet now =
     (case global_knowledge (local_engine coordinator) of
        None \<Rightarrow> coordinator
      | Some space \<Rightarrow>
          coordinator\<lparr>local_engine := (local_engine coordinator)
            \<lparr>global_knowledge := Some (fst (knowledge_packet_to_atom space packet now))\<rparr>\<rparr>)"

subsection \<open>Healing coordination\<close>

text \<open>\<^verbatim>\<open>healing_request_create\<close> reads and increments the static
  \<^verbatim>\<open>problem_id_counter\<close>: the counter is an argument and a result.\<close>

definition healing_request_create ::
  "string \<Rightarrow> real \<Rightarrow> u32 \<Rightarrow> time_t \<Rightarrow> u32 \<Rightarrow> healing_request \<times> u32" where
  "healing_request_create problem_desc sev nid now problem_id_counter =
     (\<lparr>problem_id = problem_id_counter, problem_description = take 255 problem_desc,
       severity = sev, requesting_node = nid, request_time = now,
       suggested_action = HEALING_NONE\<rparr>,
      problem_id_counter + 1)"

definition healing_response_create ::
  "u32 \<Rightarrow> u32 \<Rightarrow> healing_action_t \<Rightarrow> real \<Rightarrow> healing_response" where
  "healing_response_create pid nid act conf =
     \<lparr>resp_problem_id = pid, responding_node = nid, recommended_action = act,
      resp_confidence = conf, additional_info = []\<rparr>"

definition request_healing_assistance_impl ::
  "platform \<Rightarrow> hive_coordinator \<Rightarrow> healing_request \<Rightarrow> time_t \<Rightarrow> hive_coordinator" where
  "request_healing_assistance_impl P coordinator request now =
     (let message = hive_message_create (node_id coordinator) 0 HIVE_MSG_HEALING_REQUEST now;
          message1 = hive_message_set_data message (RequestObj request) (sizeof_healing_request_t P)
      in fst (send_message_impl coordinator message1))"

definition respond_to_healing_request_impl ::
  "platform \<Rightarrow> hive_coordinator \<Rightarrow> healing_request \<Rightarrow> time_t \<Rightarrow> hive_coordinator" where
  "respond_to_healing_request_impl P coordinator request now =
     (let recommended = healing_evaluate_problem (local_engine coordinator)
                          (problem_description request);
          response = healing_response_create (problem_id request) (node_id coordinator)
                       recommended (8 / 10);
          message = hive_message_create (node_id coordinator) (requesting_node request)
                      HIVE_MSG_HEALING_RESPONSE now;
          message1 = hive_message_set_data message (ResponseObj response)
                       (sizeof_healing_response_t P)
      in fst (send_message_impl coordinator message1))"

definition hive_coordinate_healing ::
  "platform \<Rightarrow> hive_coordinator \<Rightarrow> string \<Rightarrow> time_t \<Rightarrow> u32 \<Rightarrow> hive_coordinator \<times> u32" where
  "hive_coordinate_healing P coordinator problem_desc now problem_id_counter =
     (let (request, counter') =
            healing_request_create problem_desc (8 / 10) (node_id coordinator) now
              problem_id_counter;
          local_action = healing_evaluate_problem (local_engine coordinator) problem_desc;
          request1 = request\<lparr>suggested_action := local_action\<rparr>
      in if local_action = HEALING_NONE \<or> local_action = HEALING_RETRY
         then (request_healing_assistance_impl P coordinator request1 now, counter')
         else (coordinator, counter'))"

subsection \<open>Collective intelligence\<close>

definition hive_update_collective_topology ::
  "platform \<Rightarrow> hive_coordinator \<Rightarrow> time_t \<Rightarrow> hive_coordinator" where
  "hive_update_collective_topology P coordinator now =
     (case topology (local_engine coordinator) of
        None \<Rightarrow> coordinator
      | Some topo \<Rightarrow>
          (let collective_state =
                 take 127 (''collective_health_'' @ printf_2f P (overall_health topo))
           in case global_knowledge (local_engine coordinator) of
                None \<Rightarrow> coordinator
              | Some space \<Rightarrow>
                  (let (space1, i) = atomspace_add_atom space ATOM_CONCEPT collective_state now;
                       space2 = modify_atom space1 i
                                  (\<lambda>a. atomspace_update_truth_value a (overall_health topo)
                                          (9 / 10) now)
                   in coordinator\<lparr>local_engine := (local_engine coordinator)
                        \<lparr>global_knowledge := Some space2\<rparr>\<rparr>)))"

definition hive_calculate_emergence_factor :: "hive_coordinator \<Rightarrow> real" where
  "hive_calculate_emergence_factor coordinator =
     (let network_health =
            (case topology (local_engine coordinator) of
               Some topo \<Rightarrow> overall_health topo
             | None \<Rightarrow> 1 / 2);
          knowledge_diversity =
            (case global_knowledge (local_engine coordinator) of
               Some space \<Rightarrow> real (unat (atom_count space)) / 100
             | None \<Rightarrow> 1 / 10);
          knowledge_diversity1 = (if knowledge_diversity > 1 then 1 else knowledge_diversity);
          emergence = network_health * (4 / 10) + knowledge_diversity1 * (3 / 10)
                      + collective_intelligence_score coordinator * (3 / 10)
      in if emergence > 1 then 1 else emergence)"

definition hive_adaptive_behavior_update :: "hive_coordinator \<Rightarrow> hive_coordinator" where
  "hive_adaptive_behavior_update coordinator =
     (let emergence_factor = hive_calculate_emergence_factor coordinator;
          engine = local_engine coordinator;
          engine1 =
            (if emergence_factor > 8 / 10
             then engine\<lparr>self_image := (self_image engine)\<lparr>autonomy_level := 9 / 10\<rparr>\<rparr>
             else if emergence_factor < 3 / 10
             then engine\<lparr>self_image := (self_image engine)\<lparr>autonomy_level := 3 / 10\<rparr>\<rparr>
             else engine)
      in coordinator\<lparr>local_engine := engine1,
                     collective_intelligence_score := emergence_factor\<rparr>)"

definition update_collective_knowledge_impl ::
  "platform \<Rightarrow> hive_coordinator \<Rightarrow> time_t \<Rightarrow> hive_coordinator" where
  "update_collective_knowledge_impl P coordinator now =
     hive_adaptive_behavior_update (hive_update_collective_topology P coordinator now)"

definition calculate_swarm_health_impl :: "hive_coordinator \<Rightarrow> real" where
  "calculate_swarm_health_impl coordinator =
     (let local_health = health_score (self_image (local_engine coordinator));
          network_health =
            (case topology (local_engine coordinator) of
               Some topo \<Rightarrow> overall_health topo
             | None \<Rightarrow> 1 / 2)
      in local_health * (3 / 10) + network_health * (4 / 10)
         + collective_intelligence_score coordinator * (3 / 10))"

subsection \<open>Dispatch of a received message\<close>

text \<open>The casts \<^verbatim>\<open>(knowledge_packet_t *)message->data\<close> and
  \<^verbatim>\<open>(healing_request_t *)message->data\<close>.\<close>

definition packet_of_data :: "platform \<Rightarrow> payload \<Rightarrow> knowledge_packet" where
  "packet_of_data P d = (case d of PacketObj packet \<Rightarrow> packet | _ \<Rightarrow> reinterpret_packet P d)"

definition request_of_data :: "platform \<Rightarrow> payload \<Rightarrow> healing_request" where
  "request_of_data P d = (case d of RequestObj request \<Rightarrow> request | _ \<Rightarrow> reinterpret_request P d)"

definition receive_message_impl ::
  "platform \<Rightarrow> hive_coordinator \<Rightarrow> hive_message \<Rightarrow> time_t \<Rightarrow> hive_coordinator" where
  "receive_message_impl P coordinator message now =
     (case msg_type message of
        HIVE_MSG_HEARTBEAT \<Rightarrow>
          (case topology (local_engine coordinator) of
             None \<Rightarrow> coordinator
           | Some topo \<Rightarrow>
               coordinator\<lparr>local_engine := (local_engine coordinator)
                 \<lparr>topology := Some (topology_update_node_health
                     (topology_add_node topo (sender_id message) ''remote_node'' now)
                     (sender_id message) 1 now)\<rparr>\<rparr>)
      | HIVE_MSG_KNOWLEDGE_SHARE \<Rightarrow>
          (if data_length message = sizeof_knowledge_packet_t P
           then process_shared_knowledge_impl coordinator (packet_of_data P (data message)) now
           else coordinator)
      | HIVE_MSG_HEALING_REQUEST \<Rightarrow>
          (if data_length message = sizeof_healing_request_t P
           then respond_to_healing_request_impl P coordinator
                  (request_of_data P (data message)) now
           else coordinator)
      | HIVE_MSG_TOPOLOGY_UPDATE \<Rightarrow> hive_update_collective_topology P coordinator now
      | HIVE_MSG_EMERGENCY_SIGNAL \<Rightarrow> coordinator
      | HIVE_MSG_HEALING_RESPONSE \<Rightarrow> coordinator)"

subsection \<open>The periodic cycle\<close>

text \<open>\<^verbatim>\<open>hive_coordinator_process_cycle\<close> is three blocks in a row; each is a definition
  here, named after the comment that heads it in the source.\<close>

definition send_periodic_heartbeat :: "hive_coordinator \<Rightarrow> time_t \<Rightarrow> hive_coordinator" where
  "send_periodic_heartbeat coordinator now =
     (if now - last_heartbeat coordinator \<ge> 30
      then (let heartbeat = hive_message_create (node_id coordinator) 0 HIVE_MSG_HEARTBEAT now
            in (fst (send_message_impl coordinator heartbeat))\<lparr>last_heartbeat := now\<rparr>)
      else coordinator)"

definition update_collective_knowledge ::
  "platform \<Rightarrow> hive_coordinator \<Rightarrow> time_t \<Rightarrow> hive_coordinator" where
  "update_collective_knowledge P coordinator now =
     (if now - last_knowledge_sync coordinator \<ge> 60
      then (update_collective_knowledge_impl P coordinator now)\<lparr>last_knowledge_sync := now\<rparr>
      else coordinator)"

text \<open>The \<^verbatim>\<open>while (current)\<close> loop of the third block, with its \<^verbatim>\<open>break\<close>.\<close>

fun share_scan :: "platform \<Rightarrow> hive_coordinator \<Rightarrow> atom list \<Rightarrow> time_t \<Rightarrow> hive_coordinator" where
  "share_scan P coordinator [] now = coordinator"
| "share_scan P coordinator (current # rest) now =
     (if importance current > 8 / 10 \<and> now - timestamp current < 300
      then share_knowledge_impl P coordinator current now
      else share_scan P coordinator rest now)"

definition share_important_knowledge ::
  "platform \<Rightarrow> hive_coordinator \<Rightarrow> time_t \<Rightarrow> hive_coordinator" where
  "share_important_knowledge P coordinator now =
     (case global_knowledge (local_engine coordinator) of
        None \<Rightarrow> coordinator
      | Some space \<Rightarrow> share_scan P coordinator (atoms space) now)"

definition hive_coordinator_process_cycle ::
  "platform \<Rightarrow> hive_coordinator \<Rightarrow> time_t \<Rightarrow> hive_coordinator" where
  "hive_coordinator_process_cycle P coordinator now =
     share_important_knowledge P
       (update_collective_knowledge P (send_periodic_heartbeat coordinator now) now) now"

subsection \<open>Call sequences and a concrete platform\<close>

text \<open>A sequence of \<^verbatim>\<open>atomspace_add_atom\<close> calls, each with its type, name and clock
  reading.\<close>

fun add_atoms :: "atom_space \<Rightarrow> (atom_type_t \<times> string \<times> time_t) list \<Rightarrow> atom_space" where
  "add_atoms space [] = space"
| "add_atoms space ((ty, nm, now) # calls) =
     add_atoms (fst (atomspace_add_atom space ty nm now)) calls"

text \<open>
  One platform, to run the definitions on: the structure sizes of an LP64 target
  (\<^verbatim>\<open>char[256]\<close>, 4-byte \<^verbatim>\<open>enum\<close>, \<^verbatim>\<open>float\<close> and \<^verbatim>\<open>uint32_t\<close>, 8-byte aligned
  \<^verbatim>\<open>time_t\<close>), a two-decimal rendering that rounds halves up, and casts that read a
  foreign buffer as the all-zero structure.
\<close>

function decimal :: "nat \<Rightarrow> string" where
  "decimal n = (if n < 10 then [char_of (48 + n)]
                else decimal (n div 10) @ [char_of (48 + n mod 10)])"
  by pat_completeness auto
termination
  by (relation "measure id") auto

declare decimal.simps [simp del]

definition two_decimals :: "real \<Rightarrow> string" where
  "two_decimals x =
     (let n = nat \<lfloor>\<bar>x\<bar> * 100 + 1 / 2\<rfloor>
      in (if x < 0 then ''-'' else []) @ decimal (n div 100) @ ''.''
         @ [char_of (48 + n div 10 mod 10), char_of (48 + n mod 10)])"

definition lp64 :: platform where
  "lp64 =
     \<lparr>sizeof_knowledge_packet_t = 280,
      sizeof_healing_request_t = 288,
      sizeof_healing_response_t = 144,
      printf_2f = two_decimals,
      reinterpret_packet =
        (\<lambda>d. \<lparr>atom_name = [], atom_type = ATOM_NODE, pkt_truth_value = 0, pkt_confidence = 0,
               pkt_importance = 0, pkt_timestamp = 0\<rparr>),
      reinterpret_request =
        (\<lambda>d. \<lparr>problem_id = 0, problem_description = [], severity = 0, requesting_node = 0,
               request_time = 0, suggested_action = HEALING_NONE\<rparr>)\<rparr>"

subsection \<open>Example states\<close>

text \<open>A fact as \<^verbatim>\<open>atomspace_add_atom\<close> creates it, with a chosen importance and
  timestamp (both are plain assignable fields; \<^verbatim>\<open>knowledge_packet_to_atom\<close> sets them
  from a received packet).\<close>

definition fact :: "u32 \<Rightarrow> string \<Rightarrow> real \<Rightarrow> time_t \<Rightarrow> atom" where
  "fact i nm imp ts =
     \<lparr>atom_id = i, atom_kind = ATOM_CONCEPT, name = nm, truth_value = 1 / 2,
      confidence = 1 / 2, importance = imp, timestamp = ts\<rparr>"

text \<open>Node 1001, created at time \<open>t0\<close> on a fresh engine, whose store holds the given
  facts (head of the list first).\<close>

definition node_with_facts :: "atom list \<Rightarrow> time_t \<Rightarrow> hive_coordinator" where
  "node_with_facts facts t0 =
     hive_coordinator_create
       ((autognosis_create t0)
          \<lparr>global_knowledge :=
             Some \<lparr>atoms = facts, atom_count = of_nat (length facts),
                   next_id = of_nat (length facts) + 1\<rparr>\<rparr>)
       1001 t0"

text \<open>Node 1001 after \<^verbatim>\<open>topology_add_node\<close> and \<^verbatim>\<open>topology_update_node_health\<close>
  for one peer with the given health, with \<open>n\<close> facts in its store and the given
  collective intelligence score.\<close>

definition node_with_state :: "real \<Rightarrow> nat \<Rightarrow> real \<Rightarrow> time_t \<Rightarrow> hive_coordinator" where
  "node_with_state health n score t0 =
     (hive_coordinator_create
        ((autognosis_create t0)
           \<lparr>topology :=
              Some (topology_update_node_health
                      (topology_add_node (topology_create t0) 1002 ''192.168.1.20'' t0)
                      1002 health t0),
            global_knowledge :=
              Some \<lparr>atoms = map (\<lambda>i. fact (of_nat (Suc i)) (decimal i) 1 t0) (rev [0..<n]),
                    atom_count = of_nat n, next_id = of_nat n + 1\<rparr>\<rparr>)
        1001 t0)
     \<lparr>collective_intelligence_score := score\<rparr>"

text \<open>A fact named as the one of the integration test, with the truth value and
  confidence of the merge example (0.9, 0.9) and an importance other than the default.\<close>

definition threat_atom :: atom where
  "threat_atom =
     \<lparr>atom_id = 7, atom_kind = ATOM_CONCEPT, name = ''security_threat_detected'',
      truth_value = 9 / 10, confidence = 9 / 10, importance = 3 / 2, timestamp = 40\<rparr>"

section \<open>Properties\<close>

text \<open>Unfolding sets for running the definitions on the example states.\<close>

lemmas node_defs = node_with_state_def node_with_facts_def hive_coordinator_create_def
  autognosis_create_def healing_add_rule_def healing_create_rule_def topology_create_def
  topology_add_node_def topology_update_node_health_def atomspace_create_def fact_def

lemmas cycle_defs = hive_coordinator_process_cycle_def send_periodic_heartbeat_def
  update_collective_knowledge_def share_important_knowledge_def share_knowledge_impl_def
  hive_broadcast_knowledge_def send_message_impl_def hive_message_set_data_def
  hive_message_create_def knowledge_packet_from_atom_def lp64_def

lemmas healing_defs = hive_coordinate_healing_def healing_request_create_def
  request_healing_assistance_impl_def respond_to_healing_request_impl_def
  healing_response_create_def healing_evaluate_problem_def

subsection \<open>Confidence-weighted merge\<close>

text \<open>
  C1. \<^verbatim>\<open>atomspace_update_truth_value\<close> on a fact with truth \<open>t1\<close> and confidence
  \<open>c1\<close>, given \<open>(t2, c2)\<close>: when \<open>c1 + c2 > 0\<close> the new truth value is
  \<open>(t1 * c1 + t2 * c2) / (c1 + c2)\<close> and the new confidence is \<open>min 1 ((c1 + c2) / 2)\<close>;
  when \<open>c1 + c2 = 0\<close> both are left as they were.
\<close>

theorem merge_confidence_weighted:
  fixes a :: atom and t c :: real and now :: time_t
  defines "a' \<equiv> atomspace_update_truth_value a t c now"
  shows "(confidence a + c > 0 \<longrightarrow>
            truth_value a' = (truth_value a * confidence a + t * c) / (confidence a + c)
          \<and> confidence a' = min 1 ((confidence a + c) / 2))
       \<and> (confidence a + c = 0 \<longrightarrow>
            truth_value a' = truth_value a \<and> confidence a' = confidence a)"
  unfolding a'_def by (simp add: atomspace_update_truth_value_def Let_def min_def)

theorem merge_confidence_weighted_witness:
  "truth_value (atomspace_update_truth_value
      \<lparr>atom_id = 1, atom_kind = ATOM_CONCEPT, name = ''health'', truth_value = 1 / 2,
       confidence = 1 / 2, importance = 1, timestamp = 0\<rparr> (9 / 10) (9 / 10) 7) = 53 / 70
   \<and> confidence (atomspace_update_truth_value
      \<lparr>atom_id = 1, atom_kind = ATOM_CONCEPT, name = ''health'', truth_value = 1 / 2,
       confidence = 1 / 2, importance = 1, timestamp = 0\<rparr> (9 / 10) (9 / 10) 7) = 7 / 10
   \<and> truth_value (atomspace_update_truth_value
      \<lparr>atom_id = 1, atom_kind = ATOM_CONCEPT, name = ''health'', truth_value = 1 / 2,
       confidence = 0, importance = 1, timestamp = 0\<rparr> (9 / 10) 0 7) = 1 / 2"
  using merge_confidence_weighted
          [where a = "\<lparr>atom_id = 1, atom_kind = ATOM_CONCEPT, name = ''health'',
                        truth_value = 1 / 2, confidence = 1 / 2, importance = 1,
                        timestamp = 0\<rparr>"
             and t = "9 / 10" and c = "9 / 10" and now = 7]
        merge_confidence_weighted
          [where a = "\<lparr>atom_id = 1, atom_kind = ATOM_CONCEPT, name = ''health'',
                        truth_value = 1 / 2, confidence = 0, importance = 1,
                        timestamp = 0\<rparr>"
             and t = "9 / 10" and c = 0 and now = 7]
  by simp

subsection \<open>Uniqueness of names in a store\<close>

lemma find_atom_from_None: "find_atom_from as nm = None \<longleftrightarrow> nm \<notin> name ` set as"
  by (induction as) auto

lemma find_atom_from_Some:
  "find_atom_from as nm = Some i \<Longrightarrow> i < length as \<and> name (as ! i) = nm"
  by (induction as arbitrary: i) (auto split: if_splits)

lemma map_name_bump:
  "i < length as \<Longrightarrow> map name (as[i := (as ! i)\<lparr>importance := v\<rparr>]) = map name as"
  by (simp add: map_update list_update_same_conv)

lemma add_atom_found:
  assumes "atomspace_find_atom space nm = Some i"
  shows "atomspace_add_atom space ty nm now =
           (space\<lparr>atoms := (atoms space)[i := (atoms space ! i)
                     \<lparr>importance := importance (atoms space ! i) + 1 / 10\<rparr>]\<rparr>, i)"
  using assms find_atom_from_Some[of "atoms space" nm i]
  by (simp add: atomspace_add_atom_def modify_atom_def atomspace_find_atom_def)

lemma add_atom_names:
  "set (map name (atoms (fst (atomspace_add_atom space ty nm now)))) =
     (if nm \<in> name ` set (atoms space) then name ` set (atoms space)
      else insert (take 255 nm) (name ` set (atoms space)))"
proof (cases "atomspace_find_atom space nm")
  case None
  then have "nm \<notin> name ` set (atoms space)"
    by (simp add: atomspace_find_atom_def find_atom_from_None)
  with None show ?thesis
    by (simp add: atomspace_add_atom_def)
next
  case (Some i)
  then have i: "i < length (atoms space)" "nm \<in> name ` set (atoms space)"
    using find_atom_from_Some[of "atoms space" nm i] find_atom_from_None[of "atoms space" nm]
    by (auto simp: atomspace_find_atom_def)
  have "set (map name (atoms (fst (atomspace_add_atom space ty nm now)))) = set (map name (atoms space))"
    using Some i(1) by (simp add: add_atom_found map_name_bump)
  with i(2) show ?thesis by simp
qed

lemma add_atom_distinct:
  assumes "distinct (map name (atoms space))" and "length nm \<le> 255"
  shows "distinct (map name (atoms (fst (atomspace_add_atom space ty nm now))))"
proof (cases "atomspace_find_atom space nm")
  case None
  then have "nm \<notin> name ` set (atoms space)"
    by (simp add: atomspace_find_atom_def find_atom_from_None)
  with None assms show ?thesis
    by (simp add: atomspace_add_atom_def)
next
  case (Some i)
  then have "i < length (atoms space)"
    using find_atom_from_Some by (auto simp: atomspace_find_atom_def)
  with Some assms show ?thesis
    by (simp add: add_atom_found map_name_bump)
qed

lemma add_atoms_distinct:
  assumes "distinct (map name (atoms space))"
    and "\<forall>(ty, nm, now) \<in> set calls. length nm \<le> 255"
  shows "distinct (map name (atoms (add_atoms space calls)))"
  using assms
proof (induction calls arbitrary: space)
  case Nil then show ?case by simp
next
  case (Cons call calls)
  obtain ty nm now where call: "call = (ty, nm, now)" by (cases call) auto
  with Cons.prems have "length nm \<le> 255" by simp
  then have "distinct (map name (atoms (fst (atomspace_add_atom space ty nm now))))"
    using Cons.prems(1) by (rule add_atom_distinct[rotated])
  moreover have "\<forall>(ty, nm, now) \<in> set calls. length nm \<le> 255"
    using Cons.prems(2) by simp
  ultimately show ?case using Cons.IH call by simp
qed

lemma add_atoms_keeps_names:
  "name ` set (atoms space) \<subseteq> name ` set (atoms (add_atoms space calls))"
proof (induction calls arbitrary: space)
  case Nil then show ?case by simp
next
  case (Cons call calls)
  obtain ty nm now where call: "call = (ty, nm, now)" by (cases call) auto
  have "name ` set (atoms space) \<subseteq> name ` set (atoms (fst (atomspace_add_atom space ty nm now)))"
    using add_atom_names[of space ty nm now] by (auto split: if_splits)
  also have "\<dots> \<subseteq> name ` set (atoms (add_atoms (fst (atomspace_add_atom space ty nm now)) calls))"
    by (rule Cons.IH)
  finally show ?case by (simp add: call)
qed

lemma add_atoms_stores_names:
  assumes "\<forall>(ty, nm, now) \<in> set calls. length nm \<le> 255"
  shows "\<forall>(ty, nm, now) \<in> set calls. nm \<in> name ` set (atoms (add_atoms space calls))"
  using assms
proof (induction calls arbitrary: space)
  case Nil then show ?case by simp
next
  case (Cons call calls)
  obtain ty nm now where call: "call = (ty, nm, now)" by (cases call) auto
  let ?s = "fst (atomspace_add_atom space ty nm now)"
  from Cons.prems call have len: "length nm \<le> 255" by simp
  have "nm \<in> name ` set (atoms ?s)"
    using add_atom_names[of space ty nm now] len by (auto split: if_splits)
  then have "nm \<in> name ` set (atoms (add_atoms ?s calls))"
    using add_atoms_keeps_names[of ?s calls] by blast
  moreover have "\<forall>(ty, nm, now) \<in> set calls. nm \<in> name ` set (atoms (add_atoms ?s calls))"
    using Cons.IH[of ?s] Cons.prems by simp
  ultimately show ?case by (simp add: call)
qed

text \<open>
  For names that fit the 256-byte buffer (at most 255 characters) the store keeps one
  atom per name: after any sequence of calls with such names, starting from the empty
  store, no two atoms have the same name; every name of the sequence is in the store;
  and adding a name that is in the store returns the atom that has it, raises its
  importance by 0.1 and leaves the rest of the store, its length included, as it was.
\<close>

lemma names_unique_within_buffer:
  assumes "\<forall>(ty, nm, now) \<in> set calls. length nm \<le> 255"
  defines "space \<equiv> add_atoms atomspace_create calls"
  shows "distinct (map name (atoms space))
       \<and> (\<forall>(ty, nm, now) \<in> set calls. nm \<in> name ` set (atoms space))
       \<and> (\<forall>nm \<in> name ` set (atoms space). \<forall>ty now.
            \<exists>i < length (atoms space). name (atoms space ! i) = nm
              \<and> atomspace_add_atom space ty nm now =
                  (space\<lparr>atoms := (atoms space)[i := (atoms space ! i)
                      \<lparr>importance := importance (atoms space ! i) + 1 / 10\<rparr>]\<rparr>, i))"
proof (intro conjI)
  show "distinct (map name (atoms space))"
    unfolding space_def using assms(1)
    by (intro add_atoms_distinct) (simp_all add: atomspace_create_def)
  show "\<forall>(ty, nm, now) \<in> set calls. nm \<in> name ` set (atoms space)"
    unfolding space_def using assms(1) by (rule add_atoms_stores_names)
  show "\<forall>nm \<in> name ` set (atoms space). \<forall>ty now.
            \<exists>i < length (atoms space). name (atoms space ! i) = nm
              \<and> atomspace_add_atom space ty nm now =
                  (space\<lparr>atoms := (atoms space)[i := (atoms space ! i)
                      \<lparr>importance := importance (atoms space ! i) + 1 / 10\<rparr>]\<rparr>, i)"
  proof (intro ballI allI)
    fix nm ty now
    assume "nm \<in> name ` set (atoms space)"
    then obtain i where i: "atomspace_find_atom space nm = Some i"
      using find_atom_from_None[of "atoms space" nm] by (auto simp: atomspace_find_atom_def)
    then have "i < length (atoms space) \<and> name (atoms space ! i) = nm"
      using find_atom_from_Some by (simp add: atomspace_find_atom_def)
    with add_atom_found[OF i]
    show "\<exists>i < length (atoms space). name (atoms space ! i) = nm
              \<and> atomspace_add_atom space ty nm now =
                  (space\<lparr>atoms := (atoms space)[i := (atoms space ! i)
                      \<lparr>importance := importance (atoms space ! i) + 1 / 10\<rparr>]\<rparr>, i)"
      by blast
  qed
qed

text \<open>
  C8. A store never holds two facts with the same name, and a repeated name raises the
  importance of the existing fact by 0.1 instead of adding a duplicate.
  \<^verbatim>\<open>atomspace_add_atom\<close> looks the name up first for that purpose, but it stores only
  the first 255 characters of a name while \<^verbatim>\<open>atomspace_find_atom\<close> compares stored
  names with the whole argument. Run on a name of 256 characters added twice to the
  empty store, the code does not find the name it has just stored, leaves the first
  atom's importance at 1 and stores a second atom under the same 255 characters.
\<close>

theorem upsert_long_name_stored_twice:
  "atomspace_find_atom
     (fst (atomspace_add_atom atomspace_create ATOM_CONCEPT (replicate 256 (CHR ''a'')) 0))
     (replicate 256 (CHR ''a'')) = None
   \<and> map name (atoms (add_atoms atomspace_create
        [(ATOM_CONCEPT, replicate 256 (CHR ''a''), 0),
         (ATOM_CONCEPT, replicate 256 (CHR ''a''), 1)]))
     = [replicate 255 (CHR ''a''), replicate 255 (CHR ''a'')]
   \<and> map importance (atoms (add_atoms atomspace_create
        [(ATOM_CONCEPT, replicate 256 (CHR ''a''), 0),
         (ATOM_CONCEPT, replicate 256 (CHR ''a''), 1)])) = [1, 1]
   \<and> \<not> distinct (map name (atoms (add_atoms atomspace_create
        [(ATOM_CONCEPT, replicate 256 (CHR ''a''), 0),
         (ATOM_CONCEPT, replicate 256 (CHR ''a''), 1)])))"
  by (simp add: atomspace_create_def atomspace_add_atom_def atomspace_find_atom_def
        modify_atom_def)

subsection \<open>Round trip through a knowledge packet\<close>

text \<open>
  C4, as the code has it. \<^verbatim>\<open>knowledge_packet_to_atom\<close> applied, on an empty store, to
  \<^verbatim>\<open>knowledge_packet_from_atom\<close> of a fact with truth \<open>t\<close> and confidence \<open>c\<close> leaves
  one stored fact. It has the fact's importance, timestamp, type and (first 255
  characters of the) name. Its truth value and confidence are the merge of \<open>(t, c)\<close>
  into the defaults \<open>(0.5, 0.5)\<close>: truth \<open>(0.25 + t * c) / (0.5 + c)\<close> and confidence
  \<open>min 1 ((0.5 + c) / 2)\<close> when \<open>0.5 + c > 0\<close>, and the defaults themselves otherwise.
\<close>

theorem decode_encode_on_empty_store:
  fixes a :: atom and now :: time_t
  defines "t \<equiv> truth_value a" and "c \<equiv> confidence a"
  shows "knowledge_packet_to_atom atomspace_create (knowledge_packet_from_atom a) now =
           (\<lparr>atoms = [\<lparr>atom_id = 1, atom_kind = atom_kind a, name = take 255 (name a),
                        truth_value =
                          (if 1 / 2 + c > 0 then (1 / 4 + t * c) / (1 / 2 + c) else 1 / 2),
                        confidence =
                          (if 1 / 2 + c > 0 then min 1 ((1 / 2 + c) / 2) else 1 / 2),
                        importance = importance a, timestamp = timestamp a\<rparr>],
             atom_count = 1, next_id = 2\<rparr>, 0)"
  unfolding t_def c_def
  by (simp add: knowledge_packet_to_atom_def knowledge_packet_from_atom_def atomspace_create_def
        atomspace_add_atom_def atomspace_find_atom_def modify_atom_def
        atomspace_update_truth_value_def Let_def min_def)

theorem decode_encode_on_empty_store_witness:
  "knowledge_packet_to_atom atomspace_create (knowledge_packet_from_atom threat_atom) 100
   = (\<lparr>atoms = [\<lparr>atom_id = 1, atom_kind = ATOM_CONCEPT, name = ''security_threat_detected'',
                  truth_value = 53 / 70, confidence = 7 / 10, importance = 3 / 2,
                  timestamp = 40\<rparr>],
       atom_count = 1, next_id = 2\<rparr>, 0)"
  using decode_encode_on_empty_store [where a = threat_atom and now = 100]
  by (simp add: threat_atom_def)

text \<open>The fact with truth 0.9 and confidence 0.9 comes back with truth 53/70 and
  confidence 0.7.\<close>

theorem decode_encode_truth_counterexample:
  "map truth_value (atoms (fst (knowledge_packet_to_atom atomspace_create
      (knowledge_packet_from_atom threat_atom) 100))) = [53 / 70]
   \<and> map confidence (atoms (fst (knowledge_packet_to_atom atomspace_create
      (knowledge_packet_from_atom threat_atom) 100))) = [7 / 10]
   \<and> truth_value threat_atom = 9 / 10 \<and> confidence threat_atom = 9 / 10"
  by (simp add: knowledge_packet_to_atom_def knowledge_packet_from_atom_def atomspace_create_def
        atomspace_add_atom_def atomspace_find_atom_def modify_atom_def
        atomspace_update_truth_value_def Let_def threat_atom_def)

subsection \<open>Oversized payloads\<close>

text \<open>
  C2, as the code has it. \<^verbatim>\<open>hive_message_set_data\<close> with a length above 512 returns
  without touching the message: payload and \<^verbatim>\<open>data_length\<close> stay as they were, nothing
  is cut to fit, and nothing is reported (the function is \<^verbatim>\<open>void\<close>). A send that
  follows hands the message over to the transport as it was, with the next sequence
  number.
\<close>

theorem oversized_payload_ignored:
  assumes "len > 512"
  shows "hive_message_set_data message d len = message
       \<and> send_message_impl coordinator (hive_message_set_data message d len) =
           (coordinator\<lparr>sequence_counter := sequence_counter coordinator + 1,
                        sent := sent coordinator
                                @ [message\<lparr>sequence_number := sequence_counter coordinator + 1\<rparr>]\<rparr>,
            message\<lparr>sequence_number := sequence_counter coordinator + 1\<rparr>)"
  using assms by (simp add: hive_message_set_data_def send_message_impl_def Let_def)

theorem oversized_payload_ignored_witness:
  "(513 :: u32) > 512
   \<and> hive_message_set_data (hive_message_create 1001 0 HIVE_MSG_KNOWLEDGE_SHARE 5)
       (RawBytes (replicate 513 0)) 513
     = hive_message_create 1001 0 HIVE_MSG_KNOWLEDGE_SHARE 5"
  using oversized_payload_ignored [of 513 "hive_message_create 1001 0 HIVE_MSG_KNOWLEDGE_SHARE 5"
     "RawBytes (replicate 513 0)" "node_with_facts [] 0"]
  by simp

text \<open>With 513 bytes the transport still gets a message: the empty one that
  \<^verbatim>\<open>hive_message_create\<close> made.\<close>

theorem oversized_payload_counterexample:
  "sent (node_with_facts [] 0) = []
   \<and> sent (fst (send_message_impl (node_with_facts [] 0)
        (hive_message_set_data (hive_message_create 1001 0 HIVE_MSG_KNOWLEDGE_SHARE 5)
           (RawBytes (replicate 513 0)) 513)))
     = [\<lparr>sender_id = 1001, recipient_id = 0, msg_type = HIVE_MSG_KNOWLEDGE_SHARE,
         sequence_number = 1, msg_timestamp = 5, data_length = 0,
         data = RawBytes (replicate 512 0)\<rparr>]"
  by (simp add: hive_message_set_data_def send_message_impl_def Let_def hive_message_create_def
        node_defs)

subsection \<open>Sequence numbers\<close>








subsection \<open>Payloads of the wrong size\<close>

text \<open>
  C9. A received \<^verbatim>\<open>KNOWLEDGE_SHARE\<close> whose \<^verbatim>\<open>data_length\<close> differs from
  \<^verbatim>\<open>sizeof(knowledge_packet_t)\<close>, or \<^verbatim>\<open>HEALING_REQUEST\<close> whose \<^verbatim>\<open>data_length\<close>
  differs from \<^verbatim>\<open>sizeof(healing_request_t)\<close>, changes nothing: the coordinator, its
  store and the trace of sent messages are as before, and the dispatch has no result in
  which to report an error.
\<close>

theorem wrong_size_payload_ignored:
  assumes "(msg_type message = HIVE_MSG_KNOWLEDGE_SHARE
              \<and> data_length message \<noteq> sizeof_knowledge_packet_t P)
         \<or> (msg_type message = HIVE_MSG_HEALING_REQUEST
              \<and> data_length message \<noteq> sizeof_healing_request_t P)"
  shows "receive_message_impl P coordinator message now = coordinator"
  using assms by (auto simp: receive_message_impl_def)

theorem wrong_size_payload_ignored_witness:
  "receive_message_impl lp64 (node_with_facts [] 0)
     \<lparr>sender_id = 1002, recipient_id = 0, msg_type = HIVE_MSG_KNOWLEDGE_SHARE,
      sequence_number = 9, msg_timestamp = 3, data_length = 279,
      data = PacketObj (knowledge_packet_from_atom threat_atom)\<rparr> 5
   = node_with_facts [] 0
   \<and> receive_message_impl lp64 (node_with_facts [] 0)
     \<lparr>sender_id = 1002, recipient_id = 0, msg_type = HIVE_MSG_HEALING_REQUEST,
      sequence_number = 9, msg_timestamp = 3, data_length = 280,
      data = RequestObj (fst (healing_request_create ''disk_full'' (8 / 10) 1002 3 1))\<rparr> 5
   = node_with_facts [] 0"
  using wrong_size_payload_ignored [of
     "\<lparr>sender_id = 1002, recipient_id = 0, msg_type = HIVE_MSG_KNOWLEDGE_SHARE,
      sequence_number = 9, msg_timestamp = 3, data_length = 279,
      data = PacketObj (knowledge_packet_from_atom threat_atom)\<rparr>" lp64 "node_with_facts [] 0" 5]
   wrong_size_payload_ignored [of
     "\<lparr>sender_id = 1002, recipient_id = 0, msg_type = HIVE_MSG_HEALING_REQUEST,
      sequence_number = 9, msg_timestamp = 3, data_length = 280,
      data = RequestObj (fst (healing_request_create ''disk_full'' (8 / 10) 1002 3 1))\<rparr>"
      lp64 "node_with_facts [] 0" 5]
  by (simp add: lp64_def)

subsection \<open>Selective sharing in the periodic cycle\<close>

lemma heartbeat_block_sent:
  "sent (send_periodic_heartbeat c now) =
     sent c @ (if now - last_heartbeat c \<ge> 30
               then [\<lparr>sender_id = node_id c, recipient_id = 0, msg_type = HIVE_MSG_HEARTBEAT,
                      sequence_number = sequence_counter c + 1, msg_timestamp = now,
                      data_length = 0, data = RawBytes (replicate 512 0)\<rparr>]
               else [])"
  by (simp add: send_periodic_heartbeat_def send_message_impl_def hive_message_create_def Let_def)

lemma heartbeat_block_frame:
  "sequence_counter (send_periodic_heartbeat c now) =
     (if now - last_heartbeat c \<ge> 30 then sequence_counter c + 1 else sequence_counter c)"
  "node_id (send_periodic_heartbeat c now) = node_id c"
  "local_engine (send_periodic_heartbeat c now) = local_engine c"
  "last_knowledge_sync (send_periodic_heartbeat c now) = last_knowledge_sync c"
  "collective_intelligence_score (send_periodic_heartbeat c now) = collective_intelligence_score c"
  by (simp_all add: send_periodic_heartbeat_def send_message_impl_def Let_def)

lemma collective_topology_frame:
  "sent (hive_update_collective_topology P c now) = sent c"
  "sequence_counter (hive_update_collective_topology P c now) = sequence_counter c"
  "node_id (hive_update_collective_topology P c now) = node_id c"
  by (simp_all add: hive_update_collective_topology_def Let_def split: option.split prod.split)

lemma collective_topology_engine:
  "local_engine c1 = local_engine c \<Longrightarrow>
     local_engine (hive_update_collective_topology P c1 now)
       = local_engine (hive_update_collective_topology P c now)"
  by (simp add: hive_update_collective_topology_def Let_def split: option.split prod.split)

lemma adaptive_behavior_frame:
  "sent (hive_adaptive_behavior_update c) = sent c"
  "sequence_counter (hive_adaptive_behavior_update c) = sequence_counter c"
  "node_id (hive_adaptive_behavior_update c) = node_id c"
  "global_knowledge (local_engine (hive_adaptive_behavior_update c))
     = global_knowledge (local_engine c)"
  by (simp_all add: hive_adaptive_behavior_update_def Let_def)

lemma sync_block_frame:
  "sent (update_collective_knowledge P c now) = sent c"
  "sequence_counter (update_collective_knowledge P c now) = sequence_counter c"
  "node_id (update_collective_knowledge P c now) = node_id c"
  by (simp_all add: update_collective_knowledge_def update_collective_knowledge_impl_def
        adaptive_behavior_frame collective_topology_frame)

lemma sync_block_store:
  "global_knowledge (local_engine (update_collective_knowledge P c now)) =
     (if now - last_knowledge_sync c \<ge> 60
      then global_knowledge (local_engine (hive_update_collective_topology P c now))
      else global_knowledge (local_engine c))"
  by (simp add: update_collective_knowledge_def update_collective_knowledge_impl_def
        adaptive_behavior_frame)

lemma broadcast_knowledge_sent:
  assumes "sizeof_knowledge_packet_t P \<le> 512"
  shows "sent (hive_broadcast_knowledge P c a now) =
           sent c @ [\<lparr>sender_id = node_id c, recipient_id = 0,
                      msg_type = HIVE_MSG_KNOWLEDGE_SHARE,
                      sequence_number = sequence_counter c + 1, msg_timestamp = now,
                      data_length = sizeof_knowledge_packet_t P,
                      data = PacketObj (knowledge_packet_from_atom a)\<rparr>]"
  using assms
  by (simp add: hive_broadcast_knowledge_def send_message_impl_def Let_def
        hive_message_set_data_def hive_message_create_def not_less)

lemma share_scan_first:
  "share_scan P c facts now =
     (case find (\<lambda>a. importance a > 8 / 10 \<and> now - timestamp a < 300) facts of
        None \<Rightarrow> c
      | Some a \<Rightarrow> hive_broadcast_knowledge P c a now)"
  by (induction facts) (auto simp: share_knowledge_impl_def)

lemma share_block_sent:
  assumes "sizeof_knowledge_packet_t P \<le> 512"
  shows "sent (share_important_knowledge P c now) =
           sent c @
           (case find (\<lambda>a. importance a > 8 / 10 \<and> now - timestamp a < 300)
                   (case global_knowledge (local_engine c) of
                      None \<Rightarrow> [] | Some space \<Rightarrow> atoms space) of
              None \<Rightarrow> []
            | Some a \<Rightarrow>
                [\<lparr>sender_id = node_id c, recipient_id = 0,
                  msg_type = HIVE_MSG_KNOWLEDGE_SHARE,
                  sequence_number = sequence_counter c + 1, msg_timestamp = now,
                  data_length = sizeof_knowledge_packet_t P,
                  data = PacketObj (knowledge_packet_from_atom a)\<rparr>])"
  using assms
  by (simp add: share_important_knowledge_def share_scan_first broadcast_knowledge_sent
        split: option.split)

text \<open>
  C3, as the code has it. One run of \<^verbatim>\<open>hive_coordinator_process_cycle\<close> hands to the
  transport, after what was sent before and in this order: a heartbeat if
  \<open>now - last_heartbeat \<ge> 30\<close>; then one \<^verbatim>\<open>KNOWLEDGE_SHARE\<close> broadcast (recipient 0)
  carrying the packet of the first fact, walking the store from its head, with
  \<open>importance > 0.8\<close> and \<open>now - timestamp < 300\<close>; and nothing else. The store walked
  is the one the knowledge-sync block leaves: the node's store, after
  \<^verbatim>\<open>hive_update_collective_topology\<close> if \<open>now - last_knowledge_sync \<ge> 60\<close>. If it
  has no such fact, or there is no store, no fact is shared. So at most one fact is
  shared per cycle, a fact with importance 0.65 is never shared by it, a fact with
  importance 0.85 and age below 300 is shared when no fact before it qualifies, and a
  fact of age 301 is not. (The threshold 0.7 of \<^verbatim>\<open>share_knowledge_impl\<close> is implied
  by 0.8.)
\<close>

theorem cycle_shares_first_important_recent_fact:
  fixes P :: platform and coordinator :: hive_coordinator and now :: time_t
  defines "heartbeat_due \<equiv> now - last_heartbeat coordinator \<ge> 30"
  defines "store \<equiv>
     (case (if now - last_knowledge_sync coordinator \<ge> 60
            then global_knowledge (local_engine (hive_update_collective_topology P coordinator now))
            else global_knowledge (local_engine coordinator)) of
        None \<Rightarrow> []
      | Some space \<Rightarrow> atoms space)"
  assumes "sizeof_knowledge_packet_t P \<le> 512"
  shows "sent (hive_coordinator_process_cycle P coordinator now) =
           sent coordinator
           @ (if heartbeat_due
              then [\<lparr>sender_id = node_id coordinator, recipient_id = 0,
                     msg_type = HIVE_MSG_HEARTBEAT,
                     sequence_number = sequence_counter coordinator + 1, msg_timestamp = now,
                     data_length = 0, data = RawBytes (replicate 512 0)\<rparr>]
              else [])
           @ (case find (\<lambda>a. importance a > 8 / 10 \<and> now - timestamp a < 300) store of
                None \<Rightarrow> []
              | Some a \<Rightarrow>
                  [\<lparr>sender_id = node_id coordinator, recipient_id = 0,
                    msg_type = HIVE_MSG_KNOWLEDGE_SHARE,
                    sequence_number =
                      (if heartbeat_due then sequence_counter coordinator + 1
                       else sequence_counter coordinator) + 1,
                    msg_timestamp = now,
                    data_length = sizeof_knowledge_packet_t P,
                    data = PacketObj (knowledge_packet_from_atom a)\<rparr>])"
proof -
  let ?c1 = "send_periodic_heartbeat coordinator now"
  let ?c2 = "update_collective_knowledge P ?c1 now"
  have store: "(case global_knowledge (local_engine ?c2) of
                  None \<Rightarrow> [] | Some space \<Rightarrow> atoms space) = store"
    using collective_topology_engine [of ?c1 coordinator P now]
    by (simp add: store_def sync_block_store heartbeat_block_frame)
  have n: "node_id ?c2 = node_id coordinator"
    by (simp add: sync_block_frame heartbeat_block_frame)
  have k: "sequence_counter ?c2 =
             (if heartbeat_due then sequence_counter coordinator + 1
              else sequence_counter coordinator)"
    by (simp add: sync_block_frame heartbeat_block_frame heartbeat_due_def)
  have s: "sent ?c2 =
             sent coordinator
             @ (if heartbeat_due
                then [\<lparr>sender_id = node_id coordinator, recipient_id = 0,
                       msg_type = HIVE_MSG_HEARTBEAT,
                       sequence_number = sequence_counter coordinator + 1, msg_timestamp = now,
                       data_length = 0, data = RawBytes (replicate 512 0)\<rparr>]
                else [])"
    by (simp add: sync_block_frame heartbeat_block_sent heartbeat_due_def)
  have "sent (share_important_knowledge P ?c2 now) = sent ?c2 @
           (case find (\<lambda>a. importance a > 8 / 10 \<and> now - timestamp a < 300) store of
              None \<Rightarrow> []
            | Some a \<Rightarrow>
                [\<lparr>sender_id = node_id ?c2, recipient_id = 0,
                  msg_type = HIVE_MSG_KNOWLEDGE_SHARE,
                  sequence_number = sequence_counter ?c2 + 1, msg_timestamp = now,
                  data_length = sizeof_knowledge_packet_t P,
                  data = PacketObj (knowledge_packet_from_atom a)\<rparr>])"
    using share_block_sent [OF assms(3), of ?c2 now] by (simp only: store)
  then show ?thesis
    unfolding hive_coordinator_process_cycle_def n k s by simp
qed

theorem cycle_shares_first_important_recent_fact_witness:
  "sizeof_knowledge_packet_t lp64 \<le> 512
   \<and> sent (hive_coordinator_process_cycle lp64
       (node_with_facts [fact 4 ''load'' (65 / 100) 1000, fact 3 ''old_route'' (85 / 100) 709,
                         fact 2 ''route'' (85 / 100) 1000, fact 1 ''self'' 1 1000] 1000) 1010)
     = [\<lparr>sender_id = 1001, recipient_id = 0, msg_type = HIVE_MSG_KNOWLEDGE_SHARE,
         sequence_number = 1, msg_timestamp = 1010, data_length = 280,
         data = PacketObj \<lparr>atom_name = ''route'', atom_type = ATOM_CONCEPT,
                            pkt_truth_value = 1 / 2, pkt_confidence = 1 / 2,
                            pkt_importance = 85 / 100, pkt_timestamp = 1000\<rparr>\<rparr>]
   \<and> sent (hive_coordinator_process_cycle lp64
       (node_with_facts [fact 4 ''load'' (65 / 100) 1000, fact 3 ''old_route'' (85 / 100) 709,
                         fact 2 ''route'' (85 / 100) 1000, fact 1 ''self'' 1 1000] 1000) 1030)
     = [\<lparr>sender_id = 1001, recipient_id = 0, msg_type = HIVE_MSG_HEARTBEAT,
         sequence_number = 1, msg_timestamp = 1030, data_length = 0,
         data = RawBytes (replicate 512 0)\<rparr>,
        \<lparr>sender_id = 1001, recipient_id = 0, msg_type = HIVE_MSG_KNOWLEDGE_SHARE,
         sequence_number = 2, msg_timestamp = 1030, data_length = 280,
         data = PacketObj \<lparr>atom_name = ''route'', atom_type = ATOM_CONCEPT,
                            pkt_truth_value = 1 / 2, pkt_confidence = 1 / 2,
                            pkt_importance = 85 / 100, pkt_timestamp = 1000\<rparr>\<rparr>]
   \<and> sent (hive_coordinator_process_cycle lp64
       (node_with_facts [fact 2 ''load'' (65 / 100) 1000, fact 1 ''old_route'' (85 / 100) 709]
          1000) 1010) = []"
  using cycle_shares_first_important_recent_fact [where P = lp64 and now = 1010 and coordinator =
       "node_with_facts [fact 4 ''load'' (65 / 100) 1000, fact 3 ''old_route'' (85 / 100) 709,
                         fact 2 ''route'' (85 / 100) 1000, fact 1 ''self'' 1 1000] 1000"]
     cycle_shares_first_important_recent_fact [where P = lp64 and now = 1030 and coordinator =
       "node_with_facts [fact 4 ''load'' (65 / 100) 1000, fact 3 ''old_route'' (85 / 100) 709,
                         fact 2 ''route'' (85 / 100) 1000, fact 1 ''self'' 1 1000] 1000"]
     cycle_shares_first_important_recent_fact [where P = lp64 and now = 1010 and coordinator =
       "node_with_facts [fact 2 ''load'' (65 / 100) 1000, fact 1 ''old_route'' (85 / 100) 709]
          1000"]
  by (simp add: node_defs cycle_defs Let_def)

text \<open>A fact with importance 0.75 and age 10 is above 0.7 and recent, and the cycle
  sends nothing.\<close>

theorem cycle_threshold_counterexample:
  "importance (fact 1 ''route'' (75 / 100) 1000) > 7 / 10
   \<and> 1010 - timestamp (fact 1 ''route'' (75 / 100) 1000) < 300
   \<and> sent (hive_coordinator_process_cycle lp64
        (node_with_facts [fact 1 ''route'' (75 / 100) 1000] 1000) 1010) = []"
  by (simp add: node_defs cycle_defs Let_def)

subsection \<open>Escalation of healing\<close>

lemma request_assistance_sent:
  assumes "sizeof_healing_request_t P \<le> 512"
  shows "sent (request_healing_assistance_impl P c request now) =
           sent c @ [\<lparr>sender_id = node_id c, recipient_id = 0,
                      msg_type = HIVE_MSG_HEALING_REQUEST,
                      sequence_number = sequence_counter c + 1, msg_timestamp = now,
                      data_length = sizeof_healing_request_t P,
                      data = RequestObj request\<rparr>]"
  using assms
  by (simp add: request_healing_assistance_impl_def
        send_message_impl_def hive_message_set_data_def hive_message_create_def Let_def not_less)

text \<open>
  C5. Where \<^verbatim>\<open>healing_request_t\<close> fits the 512-byte buffer:
  \<^verbatim>\<open>hive_coordinate_healing\<close> sends exactly one message when the local evaluation of
  the problem gives \<^verbatim>\<open>HEALING_NONE\<close> or \<^verbatim>\<open>HEALING_RETRY\<close>, of type
  \<^verbatim>\<open>HEALING_REQUEST\<close>, with recipient 0 (broadcast), and carrying the request: the
  next problem id, the description (its first 255 characters), severity 0.8, this node
  as requesting node, the time of the call and the local action as suggested action.
  For every other action it sends nothing and leaves the coordinator as it was.
\<close>

theorem escalation_policy:
  fixes P :: platform and coordinator :: hive_coordinator and problem_desc :: string
    and now :: time_t and problem_id_counter :: u32
  defines "local_action \<equiv> healing_evaluate_problem (local_engine coordinator) problem_desc"
  defines "after \<equiv> fst (hive_coordinate_healing P coordinator problem_desc now problem_id_counter)"
  assumes "sizeof_healing_request_t P \<le> 512"
  shows "(local_action = HEALING_NONE \<or> local_action = HEALING_RETRY \<longrightarrow>
            sent after = sent coordinator @
              [\<lparr>sender_id = node_id coordinator, recipient_id = 0,
                msg_type = HIVE_MSG_HEALING_REQUEST,
                sequence_number = sequence_counter coordinator + 1, msg_timestamp = now,
                data_length = sizeof_healing_request_t P,
                data = RequestObj
                  \<lparr>problem_id = problem_id_counter,
                   problem_description = take 255 problem_desc,
                   severity = 8 / 10, requesting_node = node_id coordinator,
                   request_time = now, suggested_action = local_action\<rparr>\<rparr>])
       \<and> (local_action \<noteq> HEALING_NONE \<and> local_action \<noteq> HEALING_RETRY \<longrightarrow>
            after = coordinator)"
  using assms(3) unfolding local_action_def after_def
  by (auto simp: hive_coordinate_healing_def healing_request_create_def Let_def
        request_assistance_sent)

theorem escalation_policy_witness:
  "sizeof_healing_request_t lp64 \<le> 512
   \<and> healing_evaluate_problem (local_engine (node_with_facts [] 0)) ''disk_full'' = HEALING_RETRY
   \<and> sent (fst (hive_coordinate_healing lp64 (node_with_facts [] 0) ''disk_full'' 5 1))
       = [\<lparr>sender_id = 1001, recipient_id = 0, msg_type = HIVE_MSG_HEALING_REQUEST,
           sequence_number = 1, msg_timestamp = 5, data_length = 288,
           data = RequestObj
             \<lparr>problem_id = 1, problem_description = ''disk_full'', severity = 8 / 10,
              requesting_node = 1001, request_time = 5,
              suggested_action = HEALING_RETRY\<rparr>\<rparr>]
   \<and> healing_evaluate_problem (local_engine (node_with_facts [] 0)) ''node_failure''
       = HEALING_MIGRATE
   \<and> fst (hive_coordinate_healing lp64 (node_with_facts [] 0) ''node_failure'' 5 1)
       = node_with_facts [] 0"
  using escalation_policy [where coordinator = "node_with_facts [] 0"
           and problem_desc = "''disk_full''" and P = lp64 and now = 5 and problem_id_counter = 1]
        escalation_policy [where coordinator = "node_with_facts [] 0"
           and problem_desc = "''node_failure''" and P = lp64 and now = 5 and problem_id_counter = 1]
  by (simp add: node_defs healing_defs cycle_defs Let_def)

subsection \<open>Constants in healing messages\<close>

lemma respond_sent:
  assumes "sizeof_healing_response_t P \<le> 512"
  shows "sent (respond_to_healing_request_impl P c request now) =
           sent c @ [\<lparr>sender_id = node_id c, recipient_id = requesting_node request,
                      msg_type = HIVE_MSG_HEALING_RESPONSE,
                      sequence_number = sequence_counter c + 1, msg_timestamp = now,
                      data_length = sizeof_healing_response_t P,
                      data = ResponseObj
                        \<lparr>resp_problem_id = problem_id request, responding_node = node_id c,
                         recommended_action =
                           healing_evaluate_problem (local_engine c) (problem_description request),
                         resp_confidence = 8 / 10, additional_info = []\<rparr>\<rparr>]"
  using assms
  by (simp add: respond_to_healing_request_impl_def healing_response_create_def
        send_message_impl_def hive_message_set_data_def hive_message_create_def Let_def not_less)

text \<open>
  C10. Where the structures fit the 512-byte buffer: the message that
  \<^verbatim>\<open>respond_to_healing_request_impl\<close> sends carries a response whose confidence is 0.8,
  whatever the request and whatever the local evaluation returns; and the request that
  \<^verbatim>\<open>hive_coordinate_healing\<close> sends carries severity 0.8, the function having no
  argument for it.
\<close>

theorem healing_floats_are_constants:
  fixes P :: platform and coordinator :: hive_coordinator and request :: healing_request
    and problem_desc :: string and now :: time_t and problem_id_counter :: u32
  defines "local_action \<equiv> healing_evaluate_problem (local_engine coordinator) problem_desc"
  shows "(sizeof_healing_response_t P \<le> 512 \<longrightarrow>
            (\<exists>message response.
               sent (respond_to_healing_request_impl P coordinator request now)
                 = sent coordinator @ [message]
               \<and> msg_type message = HIVE_MSG_HEALING_RESPONSE
               \<and> data message = ResponseObj response
               \<and> resp_confidence response = 8 / 10))
       \<and> (sizeof_healing_request_t P \<le> 512
            \<and> (local_action = HEALING_NONE \<or> local_action = HEALING_RETRY) \<longrightarrow>
            (\<exists>message request.
               sent (fst (hive_coordinate_healing P coordinator problem_desc now
                            problem_id_counter))
                 = sent coordinator @ [message]
               \<and> msg_type message = HIVE_MSG_HEALING_REQUEST
               \<and> data message = RequestObj request
               \<and> severity request = 8 / 10))"
proof (intro conjI impI)
  assume "sizeof_healing_response_t P \<le> 512"
  then show "\<exists>message response.
               sent (respond_to_healing_request_impl P coordinator request now)
                 = sent coordinator @ [message]
               \<and> msg_type message = HIVE_MSG_HEALING_RESPONSE
               \<and> data message = ResponseObj response
               \<and> resp_confidence response = 8 / 10"
    by (simp add: respond_sent)
next
  assume "sizeof_healing_request_t P \<le> 512
            \<and> (local_action = HEALING_NONE \<or> local_action = HEALING_RETRY)"
  then show "\<exists>message request.
               sent (fst (hive_coordinate_healing P coordinator problem_desc now
                            problem_id_counter))
                 = sent coordinator @ [message]
               \<and> msg_type message = HIVE_MSG_HEALING_REQUEST
               \<and> data message = RequestObj request
               \<and> severity request = 8 / 10"
    unfolding local_action_def
    by (auto simp: hive_coordinate_healing_def healing_request_create_def Let_def
          request_assistance_sent)
qed

theorem healing_floats_are_constants_witness:
  "sizeof_healing_response_t lp64 \<le> 512 \<and> sizeof_healing_request_t lp64 \<le> 512
   \<and> map data (sent (respond_to_healing_request_impl lp64 (node_with_facts [] 0)
        (fst (healing_request_create ''node_failure'' (95 / 100) 1002 3 1)) 5))
     = [ResponseObj \<lparr>resp_problem_id = 1, responding_node = 1001,
                     recommended_action = HEALING_MIGRATE, resp_confidence = 8 / 10,
                     additional_info = []\<rparr>]
   \<and> map data (sent (fst (hive_coordinate_healing lp64 (node_with_facts [] 0)
                            ''disk_full'' 5 1)))
     = [RequestObj \<lparr>problem_id = 1, problem_description = ''disk_full'', severity = 8 / 10,
                    requesting_node = 1001, request_time = 5,
                    suggested_action = HEALING_RETRY\<rparr>]"
  using healing_floats_are_constants [where P = lp64 and coordinator = "node_with_facts [] 0"
     and request = "fst (healing_request_create ''node_failure'' (95 / 100) 1002 3 1)"
     and problem_desc = "''disk_full''" and now = 5 and problem_id_counter = 1]
  by (simp add: node_defs healing_defs cycle_defs Let_def)

subsection \<open>Emergence factor\<close>

text \<open>
  C7, as the code has it. With a topology and a store present,
  \<^verbatim>\<open>hive_calculate_emergence_factor\<close> returns
  \<open>min 1 (0.4 * networkHealth + 0.3 * min 1 (atomCount / 100) + 0.3 * score)\<close>, where
  \<open>score\<close> is the collective intelligence score left by the previous update: the
  weighted sum, capped at 1. For network health 0.6, 50 atoms and score 0.5 it is 0.54.
\<close>

theorem emergence_factor_formula:
  assumes "topology (local_engine coordinator) = Some topo"
    and "global_knowledge (local_engine coordinator) = Some space"
  shows "hive_calculate_emergence_factor coordinator =
           min 1 (4 / 10 * overall_health topo
                  + 3 / 10 * min 1 (real (unat (atom_count space)) / 100)
                  + 3 / 10 * collective_intelligence_score coordinator)"
  using assms by (simp add: hive_calculate_emergence_factor_def Let_def min_def)

theorem emergence_factor_formula_witness:
  "topology (local_engine (node_with_state (6 / 10) 50 (1 / 2) 0)) \<noteq> None
   \<and> global_knowledge (local_engine (node_with_state (6 / 10) 50 (1 / 2) 0)) \<noteq> None
   \<and> hive_calculate_emergence_factor (node_with_state (6 / 10) 50 (1 / 2) 0) = 54 / 100"
  using emergence_factor_formula [of "node_with_state (6 / 10) 50 (1 / 2) 0"
     "the (topology (local_engine (node_with_state (6 / 10) 50 (1 / 2) 0)))"
     "the (global_knowledge (local_engine (node_with_state (6 / 10) 50 (1 / 2) 0)))"]
  by (simp add: node_defs Let_def)

text \<open>A peer reported with health 3 gives network health 3; on a fresh node the
  weighted sum is 1.35 and the function returns 1.\<close>

theorem emergence_factor_counterexample:
  "hive_calculate_emergence_factor (node_with_state 3 0 (1 / 2) 0) = 1
   \<and> 4 / 10 * 3 + 3 / 10 * min 1 (0 / 100) + 3 / 10 * (1 / 2) = (135 / 100 :: real)"
  by (simp add: hive_calculate_emergence_factor_def node_defs Let_def)

end
